theory Spec2Isabelle
  imports Complex_Main
begin

section \<open>Data model\<close>

text \<open>
  The three tables of the service (\<open>Log\<close>, \<open>Incident\<close>, \<open>CronLock\<close>) and the enums of
  the Prisma client. Instants (\<open>Date\<close>, \<open>timestamp(3)\<close>) are milliseconds since the
  epoch, as \<open>Date.getTime()\<close> reads them. Row identifiers, which the store draws as
  opaque unique strings, are natural numbers here. A JavaScript number is the real
  number that the IEEE double denotes; every arithmetic operation of the source
  rounds its exact result to the nearest double (section \<open>Double-precision
  arithmetic\<close>).
\<close>

text \<open>Modelled from the spec: the enums of the schema (\<open>schema.prisma\<close> is not among the sources).\<close>

datatype LogLevel = DEBUG | INFO | WARN | ERROR | FATAL

datatype Severity = LOW | MEDIUM | HIGH | CRITICAL

datatype IncidentStatus = OPEN | ACKNOWLEDGED | RESOLVED

text \<open>Modelled from the spec: the columns of a \<open>Log\<close> row.\<close>

record Log =
  log_id :: nat
  service_id :: string
  level :: LogLevel
  message :: string
  timestamp :: int
  metadata :: "(string \<times> string) list"
  incident_id :: "nat option"

text \<open>
  The payload of \<open>POST /ingest\<close>. The ISO timestamp string is taken as the instant
  that \<open>new Date(logDto.timestamp)\<close> parses it to; \<open>metadata\<close> is optional.
\<close>

record CreateLogDto =
  dto_service_id :: string
  dto_level :: LogLevel
  dto_message :: string
  dto_timestamp :: int
  dto_metadata :: "(string \<times> string) list option"

record CreateIncidentDto =
  title :: string
  severity :: Severity
  status :: IncidentStatus

record Incident = CreateIncidentDto +
  inc_id :: nat

text \<open>Modelled from the spec: the lease row; \<open>lock_id\<close> is the column \<open>id\<close>.\<close>

record CronLock =
  lock_id :: string
  lockedAt :: int
  expiry :: int

record store =
  logs :: "Log list"
  incidents :: "Incident list"
  cronLocks :: "CronLock list"

section \<open>The store client\<close>

text \<open>
  Every call of the Prisma client either is served or rejects. A call rejects when the
  store is unreachable at that moment (\<open>StoreUnavailable\<close>), when a create meets a row
  with the same key (\<open>UniqueConstraint\<close>), or when a delete finds no row
  (\<open>RecordNotFound\<close>). Whether the store is unreachable is an input of each call.
\<close>

datatype error = StoreUnavailable | UniqueConstraint | RecordNotFound

definition cronLock_findUnique :: "bool \<Rightarrow> string \<Rightarrow> store \<Rightarrow> error + CronLock option" where
  "cronLock_findUnique down k s =
     (if down then Inl StoreUnavailable
      else Inr (find (\<lambda>l. lock_id l = k) (cronLocks s)))"

definition cronLock_delete :: "bool \<Rightarrow> string \<Rightarrow> store \<Rightarrow> error + store" where
  "cronLock_delete down k s =
     (if down then Inl StoreUnavailable
      else if find (\<lambda>l. lock_id l = k) (cronLocks s) = None then Inl RecordNotFound
      else Inr (s\<lparr>cronLocks := filter (\<lambda>l. lock_id l \<noteq> k) (cronLocks s)\<rparr>))"

definition cronLock_create :: "bool \<Rightarrow> CronLock \<Rightarrow> store \<Rightarrow> error + store" where
  "cronLock_create down row s =
     (if down then Inl StoreUnavailable
      else if find (\<lambda>l. lock_id l = lock_id row) (cronLocks s) = None
      then Inr (s\<lparr>cronLocks := cronLocks s @ [row]\<rparr>)
      else Inl UniqueConstraint)"

text \<open>An identifier no row of the list carries: one above the largest.\<close>

definition fresh_id :: "nat list \<Rightarrow> nat" where
  "fresh_id ids = Suc (foldr max ids 0)"

definition log_create :: "bool \<Rightarrow> CreateLogDto \<Rightarrow> (string \<times> string) list \<Rightarrow> store \<Rightarrow> error + Log \<times> store" where
  "log_create down d md s =
     (if down then Inl StoreUnavailable
      else let row = \<lparr>log_id = fresh_id (map log_id (logs s)),
                        service_id = dto_service_id d,
                        level = dto_level d,
                        message = dto_message d,
                        timestamp = dto_timestamp d,
                        metadata = md,
                        incident_id = None\<rparr>
           in Inr (row, s\<lparr>logs := logs s @ [row]\<rparr>))"

definition incident_create :: "bool \<Rightarrow> CreateIncidentDto \<Rightarrow> store \<Rightarrow> error + Incident \<times> store" where
  "incident_create down d s =
     (if down then Inl StoreUnavailable
      else let row = \<lparr>title = title d, severity = severity d, status = status d,
                        inc_id = fresh_id (map inc_id (incidents s))\<rparr>
           in Inr (row, s\<lparr>incidents := incidents s @ [row]\<rparr>))"

text \<open>
  The filter shared by the count of step 3 and the correlating update:
  \<open>level = 'ERROR'\<close>, \<open>timestamp >= cutoff\<close>, \<open>incident_id\<close> null.
\<close>

definition uncorrelated_since :: "int \<Rightarrow> Log \<Rightarrow> bool" where
  "uncorrelated_since cutoff l =
     (level l = ERROR \<and> cutoff \<le> timestamp l \<and> incident_id l = None)"

definition log_count :: "bool \<Rightarrow> int \<Rightarrow> store \<Rightarrow> error + nat" where
  "log_count down cutoff s =
     (if down then Inl StoreUnavailable
      else Inr (length (filter (uncorrelated_since cutoff) (logs s))))"

definition log_updateMany :: "bool \<Rightarrow> int \<Rightarrow> nat \<Rightarrow> store \<Rightarrow> error + store" where
  "log_updateMany down cutoff iid s =
     (if down then Inl StoreUnavailable
      else Inr (s\<lparr>logs := map (\<lambda>l. if uncorrelated_since cutoff l
                                      then l\<lparr>incident_id := Some iid\<rparr> else l) (logs s)\<rparr>))"

text \<open>
  The raw baseline query: the ERROR rows newer than thirty minutes before the
  store's clock, grouped by \<open>date_trunc('minute', timestamp)\<close>, one row per minute
  that has at least one such record, newest minute first, with its count.
\<close>

definition time_bucket :: "int \<Rightarrow> int" where
  "time_bucket t = (t div 60000) * 60000"

definition baseline_rows :: "int \<Rightarrow> Log list \<Rightarrow> Log list" where
  "baseline_rows dbNow ls =
     filter (\<lambda>l. level l = ERROR \<and> dbNow - 30 * 60000 < timestamp l) ls"

definition baselineQuery :: "int \<Rightarrow> Log list \<Rightarrow> (int \<times> nat) list" where
  "baselineQuery dbNow ls =
     (let rows = baseline_rows dbNow ls;
          buckets = rev (sort (remdups (map (\<lambda>l. time_bucket (timestamp l)) rows)))
      in map (\<lambda>b. (b, length (filter (\<lambda>l. time_bucket (timestamp l) = b) rows))) buckets)"

definition queryRaw_baseline :: "bool \<Rightarrow> int \<Rightarrow> store \<Rightarrow> error + (int \<times> nat) list" where
  "queryRaw_baseline down dbNow s =
     (if down then Inl StoreUnavailable else Inr (baselineQuery dbNow (logs s)))"

section \<open>Double-precision arithmetic\<close>

text \<open>
  The numbers of the source are IEEE 754 binary64 values, and \<open>+\<close>, \<open>-\<close>, \<open>/\<close>,
  \<open>Math.sqrt\<close> and \<open>Math.pow(x, 2)\<close> (which is \<open>x * x\<close>) return the exact result
  rounded to the nearest double, to the even one of two equally near. \<open>fl\<close> is that
  rounding: a non-zero \<open>x\<close> with \<open>2^e \<le> |x| < 2^(e+1)\<close> is rounded to a multiple of
  \<open>2^(e-52)\<close>, which leaves 53 significant bits. The exponent is not bounded here:
  the scores are computed from counts below \<open>2^31\<close> (\<open>COUNT(*)::int\<close>), whose
  sums, squares and quotients stay far inside the range of the normal doubles, so
  neither overflow nor a subnormal result arises. A count is a double as it is.
\<close>

definition pow2 :: "int \<Rightarrow> real" where
  "pow2 e = (if 0 \<le> e then 2 ^ nat e else 1 / 2 ^ nat (- e))"

definition round_even :: "real \<Rightarrow> int" where
  "round_even y =
     (if y - of_int \<lfloor>y\<rfloor> < 1 / 2 then \<lfloor>y\<rfloor>
      else if 1 / 2 < y - of_int \<lfloor>y\<rfloor> then \<lfloor>y\<rfloor> + 1
      else if even \<lfloor>y\<rfloor> then \<lfloor>y\<rfloor> else \<lfloor>y\<rfloor> + 1)"

definition fl :: "real \<Rightarrow> real" where
  "fl x =
     (if x = 0 then 0
      else of_int (round_even (x / pow2 (\<lfloor>log 2 \<bar>x\<bar>\<rfloor> - 52)))
             * pow2 (\<lfloor>log 2 \<bar>x\<bar>\<rfloor> - 52))"

section \<open>Rendering numbers\<close>

text \<open>
  A template literal renders a count in decimal. \<open>toFixed(2)\<close> takes the exact value
  of the double, rounds its magnitude to the nearest hundredth, the larger one on a
  tie, pads it to three digits and sets the point before the last two; a negative
  number gets a minus sign. (From \<open>10^21\<close> on JavaScript switches to exponent
  notation; the scores rendered here are far below, and the model keeps the fixed
  notation throughout.)
\<close>

fun digits_of :: "nat \<Rightarrow> string" where
  "digits_of n =
     (if n < 10 then [''0123456789'' ! n]
      else digits_of (n div 10) @ [''0123456789'' ! (n mod 10)])"

declare digits_of.simps [simp del]

definition toFixed2 :: "real \<Rightarrow> string" where
  "toFixed2 x =
     (let m = digits_of (nat \<lfloor>\<bar>x\<bar> * 100 + 1 / 2\<rfloor>);
          p = replicate (3 - length m) (CHR ''0'') @ m
      in (if x < 0 then ''-'' else [])
         @ take (length p - 2) p @ ''.'' @ drop (length p - 2) p)"

section \<open>The detection engine\<close>

definition Z_SCORE_THRESHOLD :: real where
  "Z_SCORE_THRESHOLD = 3.0"

definition MIN_ERROR_COUNT :: real where
  "MIN_ERROR_COUNT = 5"

definition BASELINE_WINDOW_MINUTES :: int where
  "BASELINE_WINDOW_MINUTES = 30"

definition MIN_BASELINE_BUCKETS :: nat where
  "MIN_BASELINE_BUCKETS = 5"

definition lockId :: string where
  "lockId = ''detection_service_lock''"

text \<open>
  Step 2 of \<open>runDetection\<close>: \<open>reduce\<close> is a left fold from 0, each addition
  rounded; the variance divides by the number of buckets (population variance). The
  guard of step 1 lets only lists of five buckets or more through, so the division
  by the length of an empty list (\<open>NaN\<close> in JavaScript) does not arise.
\<close>

definition mean_of :: "real list \<Rightarrow> real" where
  "mean_of values = fl (foldl (\<lambda>a b. fl (a + b)) 0 values / real (length values))"

definition variance_of :: "real list \<Rightarrow> real" where
  "variance_of values =
     fl (foldl (\<lambda>a b. fl (a + fl ((fl (b - mean_of values))\<^sup>2))) 0 values
           / real (length values))"

definition stdDev_of :: "real list \<Rightarrow> real" where
  "stdDev_of values = fl (sqrt (variance_of values))"

text \<open>Step 4: the score, with the sentinel 999 when the deviation is zero.\<close>

definition zScore_of :: "real list \<Rightarrow> nat \<Rightarrow> real" where
  "zScore_of values currentErrorCount =
     (if stdDev_of values = 0
      then (if mean_of values < real currentErrorCount then 999 else 0)
      else fl (fl (real currentErrorCount - mean_of values) / stdDev_of values))"

text \<open>Step 5: the condition of the alert, the severity and the title of the incident.\<close>

definition anomaly :: "real \<Rightarrow> nat \<Rightarrow> bool" where
  "anomaly zScore currentErrorCount =
     (Z_SCORE_THRESHOLD < zScore \<and> MIN_ERROR_COUNT < real currentErrorCount)"

definition severity_of :: "real \<Rightarrow> Severity" where
  "severity_of zScore = (if 5 < zScore then CRITICAL else HIGH)"

definition title_of :: "real \<Rightarrow> nat \<Rightarrow> string" where
  "title_of zScore currentErrorCount =
     ''Anomaly Detected: Error Spike (Z-Score: '' @ toFixed2 zScore
       @ '', Count: '' @ digits_of currentErrorCount @ '')''"

text \<open>\<open>IncidentsService.create\<close> hands its argument to the store as it is.\<close>

definition IncidentsService_create ::
    "bool \<Rightarrow> CreateIncidentDto \<Rightarrow> store \<Rightarrow> error + Incident \<times> store" where
  "IncidentsService_create down data s = incident_create down data s"

text \<open>
  The calls to the store that one tick can make, each at most once. A tick is run
  against the set of those calls that reject because the store is unreachable.
\<close>

datatype call =
    FindLock | DeleteStale | CreateLock
  | BaselineQuery | CountCurrent | CreateIncident | CorrelateLogs
  | ReleaseLock

text \<open>The start of the measurement window of step 3, sixty seconds before \<open>Date.now()\<close>.\<close>

definition oneMinuteAgo :: "int \<Rightarrow> int" where
  "oneMinuteAgo dateNow = dateNow - 60 * 1000"

text \<open>
  \<open>runDetection\<close>. \<open>dbNow\<close> is the store's \<open>NOW()\<close> at the baseline query,
  \<open>dateNow\<close> the process's \<open>Date.now()\<close> at step 3. A rejected call throws out of
  the function: the result is \<open>Inl\<close> with the store as it was at that moment. The
  lines written to the logger are left out.
\<close>

definition runDetection :: "call set \<Rightarrow> int \<Rightarrow> int \<Rightarrow> store \<Rightarrow> (error + unit) \<times> store" where
  "runDetection fails dbNow dateNow s =
     (case queryRaw_baseline (BaselineQuery \<in> fails) dbNow s of
        Inl e \<Rightarrow> (Inl e, s)
      | Inr baselineMetrics \<Rightarrow>
          if length baselineMetrics < MIN_BASELINE_BUCKETS then (Inr (), s)
          else
            let values = map (\<lambda>m. real (snd m)) baselineMetrics
            in (case log_count (CountCurrent \<in> fails) (oneMinuteAgo dateNow) s of
                  Inl e \<Rightarrow> (Inl e, s)
                | Inr currentErrorCount \<Rightarrow>
                    (let zScore = zScore_of values currentErrorCount
                     in if anomaly zScore currentErrorCount
                        then (case IncidentsService_create (CreateIncident \<in> fails)
                                     \<lparr>title = title_of zScore currentErrorCount,
                                      severity = severity_of zScore,
                                      status = OPEN\<rparr> s of
                                Inl e \<Rightarrow> (Inl e, s)
                              | Inr (incident, s1) \<Rightarrow>
                                  (case log_updateMany (CorrelateLogs \<in> fails)
                                          (oneMinuteAgo dateNow) (inc_id incident) s1 of
                                     Inl e \<Rightarrow> (Inl e, s1)
                                   | Inr s2 \<Rightarrow> (Inr (), s2)))
                        else (Inr (), s))))"

text \<open>
  \<open>handleCron\<close>. The source returns nothing at each of its three \<open>return\<close>s; the
  model's value tells which one was taken. \<open>now\<close> is \<open>new Date()\<close> at entry. A
  rejected \<open>findUnique\<close> throws; a rejected delete is swallowed by \<open>.catch(() => {})\<close>;
  a rejected create returns; an error of \<open>runDetection\<close> is rethrown after the
  \<open>finally\<close> block has run.
\<close>

datatype exit = SkippedLocked | SkippedRace | Detected

text \<open>
  \<open>this.prisma.cronLock.delete({ where: { id: lockId } }).catch(() => {})\<close>, which
  the source has twice: for the stale row, and in the \<open>finally\<close> block.
\<close>

definition delete_caught :: "bool \<Rightarrow> store \<Rightarrow> store" where
  "delete_caught down s = (case cronLock_delete down lockId s of Inl e \<Rightarrow> s | Inr s' \<Rightarrow> s')"

text \<open>The second half of \<open>handleCron\<close>: the create of the lease row and the \<open>try\<close>/\<open>finally\<close>.\<close>

definition create_and_detect ::
    "call set \<Rightarrow> int \<Rightarrow> int \<Rightarrow> int \<Rightarrow> store \<Rightarrow> (error + exit) \<times> store" where
  "create_and_detect fails now dbNow dateNow s1 =
     (case cronLock_create (CreateLock \<in> fails)
             \<lparr>lock_id = lockId, lockedAt = now, expiry = now + 9000\<rparr> s1 of
        Inl e \<Rightarrow> (Inr SkippedRace, s1)
      | Inr s2 \<Rightarrow>
          (case runDetection fails dbNow dateNow s2 of
             (r, s3) \<Rightarrow>
               (case r of Inl e \<Rightarrow> Inl e | Inr u \<Rightarrow> Inr Detected,
                delete_caught (ReleaseLock \<in> fails) s3)))"

definition handleCron :: "call set \<Rightarrow> int \<Rightarrow> int \<Rightarrow> int \<Rightarrow> store \<Rightarrow> (error + exit) \<times> store" where
  "handleCron fails now dbNow dateNow s =
     (case cronLock_findUnique (FindLock \<in> fails) lockId s of
        Inl e \<Rightarrow> (Inl e, s)
      | Inr None \<Rightarrow> create_and_detect fails now dbNow dateNow s
      | Inr (Some existingLock) \<Rightarrow>
          if expiry existingLock > now then (Inr SkippedLocked, s)
          else create_and_detect fails now dbNow dateNow
                 (delete_caught (DeleteStale \<in> fails) s))"

text \<open>
  What a tick that reaches the scoring step measures: the bucket counts of the
  baseline query, and the count of step 3.
\<close>

definition baseline_values :: "int \<Rightarrow> store \<Rightarrow> real list" where
  "baseline_values dbNow s = map (\<lambda>m. real (snd m)) (baselineQuery dbNow (logs s))"

definition current_count :: "int \<Rightarrow> store \<Rightarrow> nat" where
  "current_count dateNow s =
     length (filter (uncorrelated_since (oneMinuteAgo dateNow)) (logs s))"

section \<open>Two instances on one store\<close>

text \<open>
  Each \<open>await\<close> of \<open>handleCron\<close> is one call served by the store; between two calls
  of one instance the store may serve calls of another. An instance is at one of the
  points below; \<open>step\<close> performs its next call. \<open>runDetection\<close> is taken as one step:
  the points of interest are those of the lease.
\<close>

datatype pc =
    AtFind | AtDeleteStale | AtCreate | AtDetect
  | AtRelease "error + unit" | Exited "error + exit"

record instance_env =
  fails_of :: "call set"
  now_of :: int
  dbNow_of :: int
  dateNow_of :: int

fun step :: "instance_env \<Rightarrow> pc \<Rightarrow> store \<Rightarrow> pc \<times> store" where
  "step e AtFind s =
     (case cronLock_findUnique (FindLock \<in> fails_of e) lockId s of
        Inl err \<Rightarrow> (Exited (Inl err), s)
      | Inr None \<Rightarrow> (AtCreate, s)
      | Inr (Some l) \<Rightarrow>
          if now_of e < expiry l then (Exited (Inr SkippedLocked), s)
          else (AtDeleteStale, s))"
| "step e AtDeleteStale s = (AtCreate, delete_caught (DeleteStale \<in> fails_of e) s)"
| "step e AtCreate s =
     (case cronLock_create (CreateLock \<in> fails_of e)
             \<lparr>lock_id = lockId, lockedAt = now_of e, expiry = now_of e + 9000\<rparr> s of
        Inl err \<Rightarrow> (Exited (Inr SkippedRace), s)
      | Inr s' \<Rightarrow> (AtDetect, s'))"
| "step e AtDetect s =
     (case runDetection (fails_of e) (dbNow_of e) (dateNow_of e) s of
        (r, s') \<Rightarrow> (AtRelease r, s'))"
| "step e (AtRelease r) s =
     (Exited (case r of Inl err \<Rightarrow> Inl err | Inr u \<Rightarrow> Inr Detected),
      delete_caught (ReleaseLock \<in> fails_of e) s)"
| "step e (Exited r) s = (Exited r, s)"

datatype who = First | Second

fun interleave ::
    "instance_env \<Rightarrow> instance_env \<Rightarrow> who list \<Rightarrow> pc \<times> pc \<times> store \<Rightarrow> pc \<times> pc \<times> store" where
  "interleave ea eb [] c = c"
| "interleave ea eb (First # ws) (pa, pb, s) =
     (case step ea pa s of (pa', s') \<Rightarrow> interleave ea eb ws (pa', pb, s'))"
| "interleave ea eb (Second # ws) (pa, pb, s) =
     (case step eb pb s of (pb', s') \<Rightarrow> interleave ea eb ws (pa, pb', s'))"

section \<open>Ingestion\<close>

text \<open>
  \<open>processLog\<close>: one \<open>prisma.log.create\<close> per record, awaited; on rejection the
  error is logged and thrown again. \<open>logDto.metadata || {}\<close> puts the empty object
  for a missing \<open>metadata\<close>. The service keeps no state of its own.
\<close>

definition processLog :: "bool \<Rightarrow> CreateLogDto \<Rightarrow> store \<Rightarrow> (error + Log) \<times> store" where
  "processLog down logDto s =
     (case log_create down logDto
             (case dto_metadata logDto of None \<Rightarrow> [] | Some m \<Rightarrow> m) s of
        Inl e \<Rightarrow> (Inl e, s)
      | Inr (saved, s') \<Rightarrow> (Inr saved, s'))"

section \<open>Example stores\<close>

definition errorAt :: "nat \<Rightarrow> int \<Rightarrow> Log" where
  "errorAt i t =
     \<lparr>log_id = i, service_id = ''payment-service'', level = ERROR,
      message = ''Payment failure'', timestamp = t, metadata = [],
      incident_id = None\<rparr>"

definition empty_store :: store where
  "empty_store = \<lparr>logs = [], incidents = [], cronLocks = []\<rparr>"

text \<open>
  Five minutes with three ERROR records each; at the instant 270000 the last sixty
  seconds hold the six records from 220000 on.
\<close>

definition burst_store :: store where
  "burst_store =
     \<lparr>logs = [errorAt 1 10000, errorAt 2 20000, errorAt 3 30000,
              errorAt 4 70000, errorAt 5 80000, errorAt 6 90000,
              errorAt 7 130000, errorAt 8 140000, errorAt 9 150000,
              errorAt 10 220000, errorAt 11 225000, errorAt 12 230000,
              errorAt 13 241000, errorAt 14 242000, errorAt 15 243000],
      incidents = [], cronLocks = []\<rparr>"

text \<open>Five minutes with one ERROR record each; one record in the last sixty seconds.\<close>

definition quiet_store :: store where
  "quiet_store =
     \<lparr>logs = [errorAt 1 10000, errorAt 2 70000, errorAt 3 130000,
              errorAt 4 190000, errorAt 5 250000],
      incidents = [], cronLocks = []\<rparr>"

text \<open>Six ERROR records within one minute and nothing before: a single bucket.\<close>

definition fresh_burst_store :: store where
  "fresh_burst_store =
     \<lparr>logs = [errorAt 1 241000, errorAt 2 242000, errorAt 3 243000,
              errorAt 4 244000, errorAt 5 245000, errorAt 6 246000],
      incidents = [], cronLocks = []\<rparr>"

text \<open>
  Buckets 5, 5, 5, 5, 3 (newest first) and seven records in the last sixty seconds
  at 270000: the exact score would be 3, the doubles give a little more.
\<close>

definition edge_store :: store where
  "edge_store =
     \<lparr>logs = [errorAt 1 10000, errorAt 2 20000, errorAt 3 30000,
              errorAt 4 70000, errorAt 5 75000, errorAt 6 80000, errorAt 7 85000,
              errorAt 8 90000,
              errorAt 9 130000, errorAt 10 135000, errorAt 11 140000, errorAt 12 145000,
              errorAt 13 150000,
              errorAt 14 190000, errorAt 15 195000, errorAt 16 200000, errorAt 17 220000,
              errorAt 18 230000,
              errorAt 19 241000, errorAt 20 242000, errorAt 21 243000, errorAt 22 244000,
              errorAt 23 245000],
      incidents = [], cronLocks = []\<rparr>"

text \<open>
  Buckets 5, 3, 1, 1, 1 (newest first) and eight records in the last sixty seconds
  at 270000: the exact score would be 3.625, the doubles give a little less.
\<close>

definition edge_title_store :: store where
  "edge_title_store =
     \<lparr>logs = [errorAt 1 10000, errorAt 2 70000, errorAt 3 130000,
              errorAt 4 220000, errorAt 5 225000, errorAt 6 230000,
              errorAt 7 241000, errorAt 8 242000, errorAt 9 243000, errorAt 10 244000,
              errorAt 11 245000],
      incidents = [], cronLocks = []\<rparr>"

text \<open>A lease left behind by a holder that never released it, expired at 9000.\<close>

definition stale_store :: store where
  "stale_store =
     \<lparr>logs = [], incidents = [],
      cronLocks = [\<lparr>lock_id = lockId, lockedAt = 0, expiry = 9000\<rparr>]\<rparr>"

definition instance_at :: "int \<Rightarrow> instance_env" where
  "instance_at t = \<lparr>fails_of = {}, now_of = t, dbNow_of = t, dateNow_of = t\<rparr>"

definition example_dto :: CreateLogDto where
  "example_dto =
     \<lparr>dto_service_id = ''payment-service'', dto_level = ERROR,
      dto_message = ''Payment gateway timeout'', dto_timestamp = 1000,
      dto_metadata = Some [(''transaction_id'', ''tx_12345'')]\<rparr>"

section \<open>Rounding to a double\<close>

lemma pow2_powr: "pow2 e = 2 powr (of_int e)"
  by (simp add: pow2_def powr_int)

lemma pow2_pos: "0 < pow2 e"
  by (simp add: pow2_powr)

lemma floor_log2:
  assumes "pow2 e \<le> \<bar>x\<bar>" and "\<bar>x\<bar> < pow2 (e + 1)"
  shows "\<lfloor>log 2 \<bar>x\<bar>\<rfloor> = e"
proof -
  have "0 < \<bar>x\<bar>" using assms(1) pow2_pos [of e] by linarith
  then show ?thesis
    using assms by (simp add: floor_log_eq_powr_iff pow2_powr)
qed

lemma fl_0: "fl 0 = 0"
  by (simp add: fl_def)

text \<open>With the binade of \<open>x\<close> at hand, \<open>fl x\<close> is a rounding of an explicit quotient.\<close>

lemma fl_eval:
  assumes "pow2 e \<le> \<bar>x\<bar>" and "\<bar>x\<bar> < pow2 (e + 1)"
  shows "fl x = of_int (round_even (x / pow2 (e - 52))) * pow2 (e - 52)"
proof -
  have "x \<noteq> 0" using assms(1) pow2_pos [of e] by auto
  then show ?thesis by (simp add: fl_def floor_log2 [OF assms])
qed

lemma round_even_near:
  assumes "\<bar>y - of_int m\<bar> < 1 / 2"
  shows "round_even y = m"
proof (cases "of_int m \<le> y")
  case True
  then have "\<lfloor>y\<rfloor> = m" using assms by (simp add: floor_eq_iff abs_less_iff)
  then show ?thesis using assms True by (simp add: round_even_def abs_less_iff)
next
  case False
  then have f: "\<lfloor>y\<rfloor> = m - 1" using assms by (simp add: floor_eq_iff abs_less_iff)
  then show ?thesis using assms False by (simp add: round_even_def abs_less_iff)
qed

lemma pow2_shift: "pow2 e = 2 ^ 52 * pow2 (e - 52)" "pow2 (e + 1) = 2 ^ 53 * pow2 (e - 52)"
proof -
  have a: "(2::real) ^ 52 = 2 powr 52" "(2::real) ^ 53 = 2 powr 53"
    by (simp_all only: powr_numeral zero_less_numeral)
  have "2 powr 52 * 2 powr (of_int (e - 52)) = (2::real) powr (of_int e)"
    by (simp only: powr_add [symmetric]) simp
  then show "pow2 e = 2 ^ 52 * pow2 (e - 52)"
    by (simp only: pow2_powr a)
  have "2 powr 53 * 2 powr (of_int (e - 52)) = (2::real) powr (of_int (e + 1))"
    by (simp only: powr_add [symmetric]) (simp add: add.commute)
  then show "pow2 (e + 1) = 2 ^ 53 * pow2 (e - 52)"
    by (simp only: pow2_powr a)
qed

text \<open>
  The rounded square root: the double \<open>m * 2^(e-52)\<close> is the one returned when the
  argument lies strictly between the squares of its two neighbouring midpoints.
\<close>

lemma fl_sqrt_eval:
  assumes "2 ^ 52 < m" and "m < 2 ^ 53"
    and "((of_int m - 1 / 2) * pow2 (e - 52))\<^sup>2 < v"
    and "v < ((of_int m + 1 / 2) * pow2 (e - 52))\<^sup>2"
  shows "fl (sqrt v) = of_int m * pow2 (e - 52)"
proof -
  define u where "u = pow2 (e - 52)"
  define r :: real where "r = of_int m"
  have u: "0 < u" unfolding u_def by (rule pow2_pos)
  have "2 ^ 52 + 1 \<le> m" using assms(1) by linarith
  then have "real_of_int (2 ^ 52 + 1) \<le> r" unfolding r_def by (simp only: of_int_le_iff)
  then have m1: "2 ^ 52 + 1 \<le> r" by simp
  have "m + 1 \<le> 2 ^ 53" using assms(2) by linarith
  then have "real_of_int (m + 1) \<le> real_of_int (2 ^ 53)" by (simp only: of_int_le_iff)
  then have m2: "r + 1 \<le> 2 ^ 53" unfolding r_def by simp
  have lo: "(r - 1 / 2) * u < sqrt v"
    using assms(3) unfolding u_def r_def by (rule real_less_rsqrt)
  have hi0: "0 \<le> (r + 1 / 2) * u" using u m1 by simp
  have hi: "sqrt v < (r + 1 / 2) * u"
    using hi0 assms(4) unfolding u_def r_def by (rule real_less_lsqrt)
  have e1: "pow2 e = 2 ^ 52 * u" and e2: "pow2 (e + 1) = 2 ^ 53 * u"
    unfolding u_def by (rule pow2_shift)+
  have "2 ^ 52 \<le> r - 1 / 2" using m1 by linarith
  then have "2 ^ 52 * u \<le> (r - 1 / 2) * u"
    using u by (rule_tac mult_right_mono) simp_all
  then have s1: "pow2 e \<le> sqrt v" using lo e1 by linarith
  have "0 < pow2 e" by (rule pow2_pos)
  then have s0: "0 < sqrt v" using s1 by linarith
  have b1: "pow2 e \<le> \<bar>sqrt v\<bar>" using s1 s0 by linarith
  have "r + 1 / 2 \<le> 2 ^ 53" using m2 by linarith
  then have "(r + 1 / 2) * u \<le> 2 ^ 53 * u"
    using u by (rule_tac mult_right_mono) simp_all
  then have b2: "\<bar>sqrt v\<bar> < pow2 (e + 1)" using hi e2 s0 by linarith
  have "r - 1 / 2 < sqrt v / u" "sqrt v / u < r + 1 / 2"
    using lo hi u by (simp_all add: pos_less_divide_eq pos_divide_less_eq)
  then have "\<bar>sqrt v / u - of_int m\<bar> < 1 / 2"
    unfolding r_def by linarith
  then have "round_even (sqrt v / u) = m"
    by (rule round_even_near)
  then show ?thesis
    unfolding fl_eval [OF b1 b2] u_def by simp
qed

subsection \<open>The roundings of the examples\<close>

text \<open>
  Every rounding that the scores of the examples below go through, each with its
  binade: sums, the mean, the deviations from it, their squares, the variance, and
  the two operations of the quotient.
\<close>

lemma fl_val_1: "fl 3 = 3"
  by (subst fl_eval [where e = 1]) (simp_all add: pow2_def round_even_def)

lemma fl_val_2: "fl 6 = 6"
  by (subst fl_eval [where e = 2]) (simp_all add: pow2_def round_even_def)

lemma fl_val_3: "fl 9 = 9"
  by (subst fl_eval [where e = 3]) (simp_all add: pow2_def round_even_def)

lemma fl_val_4: "fl 12 = 12"
  by (subst fl_eval [where e = 3]) (simp_all add: pow2_def round_even_def)

lemma fl_val_5: "fl 15 = 15"
  by (subst fl_eval [where e = 3]) (simp_all add: pow2_def round_even_def)

lemma fl_val_6: "fl 2 = 2"
  by (subst fl_eval [where e = 1]) (simp_all add: pow2_def round_even_def)

lemma fl_val_7: "fl 5 = 5"
  by (subst fl_eval [where e = 2]) (simp_all add: pow2_def round_even_def)

lemma fl_val_8: "fl 7 = 7"
  by (subst fl_eval [where e = 2]) (simp_all add: pow2_def round_even_def)

lemma fl_val_9: "fl 11 = 11"
  by (subst fl_eval [where e = 3]) (simp_all add: pow2_def round_even_def)

lemma fl_val_10: "fl 14 = 14"
  by (subst fl_eval [where e = 3]) (simp_all add: pow2_def round_even_def)

lemma fl_val_11: "fl (14 / 5) = 3152519739159347 / 1125899906842624"
  by (subst fl_eval [where e = 1]) (simp_all add: pow2_def round_even_def)

lemma fl_val_12: "fl (- (900719925474099 / 1125899906842624)) = - (900719925474099 / 1125899906842624)"
  by (subst fl_eval [where e = "- 1"]) (simp_all add: pow2_def round_even_def)

lemma fl_val_13: "fl ((900719925474099 / 1125899906842624)\<^sup>2) = 720575940379279 / 1125899906842624"
  by (subst fl_eval [where e = "- 1"])
    (simp_all add: pow2_def round_even_def power2_eq_square)

lemma fl_val_14: "fl (720575940379279 / 1125899906842624) = 720575940379279 / 1125899906842624"
  by (subst fl_eval [where e = "- 1"]) (simp_all add: pow2_def round_even_def)

lemma fl_val_15: "fl (225179981368525 / 1125899906842624) = 225179981368525 / 1125899906842624"
  by (subst fl_eval [where e = "- 3"]) (simp_all add: pow2_def round_even_def)

lemma fl_val_16: "fl ((225179981368525 / 1125899906842624)\<^sup>2) = 5764607523034245 / 144115188075855872"
  by (subst fl_eval [where e = "- 5"])
    (simp_all add: pow2_def round_even_def power2_eq_square)

lemma fl_val_17: "fl (97998327891581957 / 144115188075855872) = 95701492081623 / 140737488355328"
  by (subst fl_eval [where e = "- 1"]) (simp_all add: pow2_def round_even_def)

lemma fl_val_18: "fl (1486187877032263 / 1125899906842624) = 1486187877032263 / 1125899906842624"
  by (subst fl_eval [where e = 0]) (simp_all add: pow2_def round_even_def)

lemma fl_val_19: "fl (1351079888211149 / 1125899906842624) = 1351079888211149 / 1125899906842624"
  by (subst fl_eval [where e = 0]) (simp_all add: pow2_def round_even_def)

lemma fl_val_20: "fl ((1351079888211149 / 1125899906842624)\<^sup>2) = 1621295865853379 / 1125899906842624"
  by (subst fl_eval [where e = 0])
    (simp_all add: pow2_def round_even_def power2_eq_square)

lemma fl_val_21: "fl (1553741871442821 / 562949953421312) = 1553741871442821 / 562949953421312"
  by (subst fl_eval [where e = 1]) (simp_all add: pow2_def round_even_def)

lemma fl_val_22: "fl (403522526612396421 / 144115188075855872) = 3152519739159347 / 1125899906842624"
  by (subst fl_eval [where e = 1]) (simp_all add: pow2_def round_even_def)

lemma fl_val_23: "fl (3152519739159347 / 5629499534213120) = 5044031582654955 / 9007199254740992"
  by (subst fl_eval [where e = "- 1"]) (simp_all add: pow2_def round_even_def)

lemma fl_val_24: "fl (8106479329266893 / 1125899906842624) = 8106479329266893 / 1125899906842624"
  by (subst fl_eval [where e = 2]) (simp_all add: pow2_def round_even_def)

lemma fl_val_25: "fl (32425917317067572 / 3370185362564637) = 338523083293323 / 35184372088832"
  by (subst fl_eval [where e = 3]) (simp_all add: pow2_def round_even_def)

lemma fl_val_26: "fl 10 = 10"
  by (subst fl_eval [where e = 3]) (simp_all add: pow2_def round_even_def)

lemma fl_val_27: "fl 20 = 20"
  by (subst fl_eval [where e = 4]) (simp_all add: pow2_def round_even_def)

lemma fl_val_28: "fl 23 = 23"
  by (subst fl_eval [where e = 4]) (simp_all add: pow2_def round_even_def)

lemma fl_val_29: "fl (23 / 5) = 2589569785738035 / 562949953421312"
  by (subst fl_eval [where e = 2]) (simp_all add: pow2_def round_even_def)

lemma fl_val_30: "fl (225179981368525 / 562949953421312) = 225179981368525 / 562949953421312"
  by (subst fl_eval [where e = "- 2"]) (simp_all add: pow2_def round_even_def)

lemma fl_val_31: "fl ((225179981368525 / 562949953421312)\<^sup>2) = 5764607523034245 / 36028797018963968"
  by (subst fl_eval [where e = "- 3"])
    (simp_all add: pow2_def round_even_def power2_eq_square)

lemma fl_val_32: "fl (5764607523034245 / 36028797018963968) = 5764607523034245 / 36028797018963968"
  by (subst fl_eval [where e = "- 3"]) (simp_all add: pow2_def round_even_def)

lemma fl_val_33: "fl (5764607523034245 / 18014398509481984) = 5764607523034245 / 18014398509481984"
  by (subst fl_eval [where e = "- 2"]) (simp_all add: pow2_def round_even_def)

lemma fl_val_34: "fl (17293822569102735 / 36028797018963968) = 1080863910568921 / 2251799813685248"
  by (subst fl_eval [where e = "- 2"]) (simp_all add: pow2_def round_even_def)

lemma fl_val_35: "fl (23058430092136981 / 36028797018963968) = 5764607523034245 / 9007199254740992"
  by (subst fl_eval [where e = "- 1"]) (simp_all add: pow2_def round_even_def)

lemma fl_val_36: "fl (- (900719925474099 / 562949953421312)) = - (900719925474099 / 562949953421312)"
  by (subst fl_eval [where e = 0]) (simp_all add: pow2_def round_even_def)

lemma fl_val_37: "fl ((900719925474099 / 562949953421312)\<^sup>2) = 720575940379279 / 281474976710656"
  by (subst fl_eval [where e = 1])
    (simp_all add: pow2_def round_even_def power2_eq_square)

lemma fl_val_38: "fl (28823037615171173 / 9007199254740992) = 7205759403792793 / 2251799813685248"
  by (subst fl_eval [where e = 1]) (simp_all add: pow2_def round_even_def)

lemma fl_val_39: "fl (7205759403792793 / 11258999068426240) = 2882303761517117 / 4503599627370496"
  by (subst fl_eval [where e = "- 1"]) (simp_all add: pow2_def round_even_def)

lemma fl_val_40: "fl (1351079888211149 / 562949953421312) = 1351079888211149 / 562949953421312"
  by (subst fl_eval [where e = 1]) (simp_all add: pow2_def round_even_def)

lemma fl_val_41: "fl (21617278211378384 / 7205759403792793) = 3377699720527873 / 1125899906842624"
  by (subst fl_eval [where e = 1]) (simp_all add: pow2_def round_even_def)

lemma fl_val_42: "fl 8 = 8"
  by (subst fl_eval [where e = 3]) (simp_all add: pow2_def round_even_def)

lemma fl_val_43: "fl (11 / 5) = 2476979795053773 / 1125899906842624"
  by (subst fl_eval [where e = 1]) (simp_all add: pow2_def round_even_def)

lemma fl_val_44: "fl (3152519739159347 / 1125899906842624) = 3152519739159347 / 1125899906842624"
  by (subst fl_eval [where e = 1]) (simp_all add: pow2_def round_even_def)

lemma fl_val_45: "fl ((3152519739159347 / 1125899906842624)\<^sup>2) = 8827055269646171 / 1125899906842624"
  by (subst fl_eval [where e = 2])
    (simp_all add: pow2_def round_even_def power2_eq_square)

lemma fl_val_46: "fl (8827055269646171 / 1125899906842624) = 8827055269646171 / 1125899906842624"
  by (subst fl_eval [where e = 2]) (simp_all add: pow2_def round_even_def)

lemma fl_val_47: "fl (900719925474099 / 1125899906842624) = 900719925474099 / 1125899906842624"
  by (subst fl_eval [where e = "- 1"]) (simp_all add: pow2_def round_even_def)

lemma fl_val_48: "fl (4773815605012725 / 562949953421312) = 4773815605012725 / 562949953421312"
  by (subst fl_eval [where e = 3]) (simp_all add: pow2_def round_even_def)

lemma fl_val_49: "fl (- (1351079888211149 / 1125899906842624)) = - (1351079888211149 / 1125899906842624)"
  by (subst fl_eval [where e = 0]) (simp_all add: pow2_def round_even_def)

lemma fl_val_50: "fl (11168927075878829 / 1125899906842624) = 2792231768969707 / 281474976710656"
  by (subst fl_eval [where e = 3]) (simp_all add: pow2_def round_even_def)

lemma fl_val_51: "fl (12790222941732207 / 1125899906842624) = 799388933858263 / 70368744177664"
  by (subst fl_eval [where e = 3]) (simp_all add: pow2_def round_even_def)

lemma fl_val_52: "fl (14411518807585587 / 1125899906842624) = 3602879701896397 / 281474976710656"
  by (subst fl_eval [where e = 3]) (simp_all add: pow2_def round_even_def)

lemma fl_val_53: "fl (3602879701896397 / 1407374883553280) = 5764607523034235 / 2251799813685248"
  by (subst fl_eval [where e = 1]) (simp_all add: pow2_def round_even_def)

lemma fl_val_54: "fl (6530219459687219 / 1125899906842624) = 6530219459687219 / 1125899906842624"
  by (subst fl_eval [where e = 2]) (simp_all add: pow2_def round_even_def)

lemma fl_val_55: "fl (13060438919374438 / 3602879701896397) = 8162774324609023 / 2251799813685248"
  by (subst fl_eval [where e = 1]) (simp_all add: pow2_def round_even_def)

lemma fl_val_56: "fl 18 = 18"
  by (subst fl_eval [where e = 4]) (simp_all add: pow2_def round_even_def)

lemma fl_val_57: "fl 21 = 21"
  by (subst fl_eval [where e = 4]) (simp_all add: pow2_def round_even_def)

lemma fl_val_58: "fl 24 = 24"
  by (subst fl_eval [where e = 4]) (simp_all add: pow2_def round_even_def)

lemma fl_val_59: "fl (8 / 3) = 6004799503160661 / 2251799813685248"
  by (subst fl_eval [where e = 1]) (simp_all add: pow2_def round_even_def)

lemma fl_val_60: "fl (750599937895083 / 2251799813685248) = 750599937895083 / 2251799813685248"
  by (subst fl_eval [where e = "- 2"]) (simp_all add: pow2_def round_even_def)

lemma fl_val_61: "fl ((750599937895083 / 2251799813685248)\<^sup>2) = 2001599834386889 / 18014398509481984"
  by (subst fl_eval [where e = "- 4"])
    (simp_all add: pow2_def round_even_def power2_eq_square)

lemma fl_val_62: "fl (2001599834386889 / 18014398509481984) = 2001599834386889 / 18014398509481984"
  by (subst fl_eval [where e = "- 4"]) (simp_all add: pow2_def round_even_def)

lemma fl_val_63: "fl (2001599834386889 / 9007199254740992) = 2001599834386889 / 9007199254740992"
  by (subst fl_eval [where e = "- 3"]) (simp_all add: pow2_def round_even_def)

lemma fl_val_64: "fl (6004799503160667 / 18014398509481984) = 6004799503160667 / 18014398509481984"
  by (subst fl_eval [where e = "- 2"]) (simp_all add: pow2_def round_even_def)

lemma fl_val_65: "fl (2001599834386889 / 4503599627370496) = 2001599834386889 / 4503599627370496"
  by (subst fl_eval [where e = "- 2"]) (simp_all add: pow2_def round_even_def)

lemma fl_val_66: "fl (10007999171934445 / 18014398509481984) = 2501999792983611 / 4503599627370496"
  by (subst fl_eval [where e = "- 1"]) (simp_all add: pow2_def round_even_def)

lemma fl_val_67: "fl (12009599006321333 / 18014398509481984) = 3002399751580333 / 4503599627370496"
  by (subst fl_eval [where e = "- 1"]) (simp_all add: pow2_def round_even_def)

lemma fl_val_68: "fl (14011198840708221 / 18014398509481984) = 3502799710177055 / 4503599627370496"
  by (subst fl_eval [where e = "- 1"]) (simp_all add: pow2_def round_even_def)

lemma fl_val_69: "fl (- (1501199875790165 / 2251799813685248)) = - (1501199875790165 / 2251799813685248)"
  by (subst fl_eval [where e = "- 1"]) (simp_all add: pow2_def round_even_def)

lemma fl_val_70: "fl ((1501199875790165 / 2251799813685248)\<^sup>2) = 8006399337547545 / 18014398509481984"
  by (subst fl_eval [where e = "- 2"])
    (simp_all add: pow2_def round_even_def power2_eq_square)

lemma fl_val_71: "fl (22017598178255765 / 18014398509481984) = 5504399544563941 / 4503599627370496"
  by (subst fl_eval [where e = 0]) (simp_all add: pow2_def round_even_def)

lemma fl_val_72: "fl (- (3752999689475413 / 2251799813685248)) = - (3752999689475413 / 2251799813685248)"
  by (subst fl_eval [where e = 0]) (simp_all add: pow2_def round_even_def)

lemma fl_val_73: "fl ((3752999689475413 / 2251799813685248)\<^sup>2) = 6254999482459021 / 2251799813685248"
  by (subst fl_eval [where e = 1])
    (simp_all add: pow2_def round_even_def power2_eq_square)

lemma fl_val_74: "fl (18014398509481983 / 4503599627370496) = 4"
  by (subst fl_eval [where e = 1]) (simp_all add: pow2_def round_even_def)

lemma fl_val_75: "fl (4 / 9) = 2001599834386887 / 4503599627370496"
  by (subst fl_eval [where e = "- 2"]) (simp_all add: pow2_def round_even_def)

lemma fl_val_76: "fl (7505999378950827 / 2251799813685248) = 7505999378950827 / 2251799813685248"
  by (subst fl_eval [where e = 1]) (simp_all add: pow2_def round_even_def)

lemma fl_val_77: "fl (10007999171934436 / 2001599834386887) = 5629499534213121 / 1125899906842624"
  by (subst fl_eval [where e = 2]) (simp_all add: pow2_def round_even_def)

lemmas fl_vals =
  fl_val_1 fl_val_2 fl_val_3 fl_val_4 fl_val_5 fl_val_6 fl_val_7 fl_val_8
  fl_val_9 fl_val_10 fl_val_11 fl_val_12 fl_val_13 fl_val_14 fl_val_15 fl_val_16
  fl_val_17 fl_val_18 fl_val_19 fl_val_20 fl_val_21 fl_val_22 fl_val_23 fl_val_24
  fl_val_25 fl_val_26 fl_val_27 fl_val_28 fl_val_29 fl_val_30 fl_val_31 fl_val_32
  fl_val_33 fl_val_34 fl_val_35 fl_val_36 fl_val_37 fl_val_38 fl_val_39 fl_val_40
  fl_val_41 fl_val_42 fl_val_43 fl_val_44 fl_val_45 fl_val_46 fl_val_47 fl_val_48
  fl_val_49 fl_val_50 fl_val_51 fl_val_52 fl_val_53 fl_val_54 fl_val_55 fl_val_56
  fl_val_57 fl_val_58 fl_val_59 fl_val_60 fl_val_61 fl_val_62 fl_val_63 fl_val_64
  fl_val_65 fl_val_66 fl_val_67 fl_val_68 fl_val_69 fl_val_70 fl_val_71 fl_val_72
  fl_val_73 fl_val_74 fl_val_75 fl_val_76 fl_val_77


subsection \<open>The statistics of the examples\<close>

lemma threes_mean: "mean_of [3, 3, 3, 3, 3] = 3"
  by (simp add: mean_of_def fl_vals)

lemma threes_variance: "variance_of [3, 3, 3, 3, 3] = 0"
  by (simp add: variance_of_def threes_mean fl_0 fl_vals)

lemma threes_stdDev: "stdDev_of [3, 3, 3, 3, 3] = 0"
  by (simp add: stdDev_of_def threes_variance fl_0 )

lemma threes_zScore_6: "zScore_of [3, 3, 3, 3, 3] 6 = 999"
  by (simp add: zScore_of_def threes_stdDev threes_mean fl_vals)

lemma threes_zScore_2: "zScore_of [3, 3, 3, 3, 3] 2 = 0"
  by (simp add: zScore_of_def threes_stdDev threes_mean fl_vals)

lemma ex_sqrt: "fl (sqrt (5044031582654955 / 9007199254740992)) = 3370185362564637 / 4503599627370496"
proof -
  have "fl (sqrt (5044031582654955 / 9007199254740992)) = of_int 6740370725129274 * pow2 (-1 - 52)"
    by (rule fl_sqrt_eval) (simp_all add: pow2_def power2_eq_square)
  then show ?thesis by (simp add: pow2_def)
qed

lemma ex_mean: "mean_of [2, 3, 2, 4, 3] = 3152519739159347 / 1125899906842624"
  by (simp add: mean_of_def fl_vals)

lemma ex_variance: "variance_of [2, 3, 2, 4, 3] = 5044031582654955 / 9007199254740992"
  by (simp add: variance_of_def ex_mean fl_0 fl_vals)

lemma ex_stdDev: "stdDev_of [2, 3, 2, 4, 3] = 3370185362564637 / 4503599627370496"
  by (simp add: stdDev_of_def ex_variance fl_0 ex_sqrt)

lemma ex_zScore_10: "zScore_of [2, 3, 2, 4, 3] 10 = 338523083293323 / 35184372088832"
  by (simp add: zScore_of_def ex_stdDev ex_mean fl_vals)

lemma edge_sqrt: "fl (sqrt (2882303761517117 / 4503599627370496)) = 7205759403792793 / 9007199254740992"
proof -
  have "fl (sqrt (2882303761517117 / 4503599627370496)) = of_int 7205759403792793 * pow2 (-1 - 52)"
    by (rule fl_sqrt_eval) (simp_all add: pow2_def power2_eq_square)
  then show ?thesis by (simp add: pow2_def)
qed

lemma edge_mean: "mean_of [5, 5, 5, 5, 3] = 2589569785738035 / 562949953421312"
  by (simp add: mean_of_def fl_vals)

lemma edge_variance: "variance_of [5, 5, 5, 5, 3] = 2882303761517117 / 4503599627370496"
  by (simp add: variance_of_def edge_mean fl_0 fl_vals)

lemma edge_stdDev: "stdDev_of [5, 5, 5, 5, 3] = 7205759403792793 / 9007199254740992"
  by (simp add: stdDev_of_def edge_variance fl_0 edge_sqrt)

lemma edge_zScore_7: "zScore_of [5, 5, 5, 5, 3] 7 = 3377699720527873 / 1125899906842624"
  by (simp add: zScore_of_def edge_stdDev edge_mean fl_vals)

lemma edge_title_sqrt: "fl (sqrt (5764607523034235 / 2251799813685248)) = 3602879701896397 / 2251799813685248"
proof -
  have "fl (sqrt (5764607523034235 / 2251799813685248)) = of_int 7205759403792794 * pow2 (0 - 52)"
    by (rule fl_sqrt_eval) (simp_all add: pow2_def power2_eq_square)
  then show ?thesis by (simp add: pow2_def)
qed

lemma edge_title_mean: "mean_of [5, 3, 1, 1, 1] = 2476979795053773 / 1125899906842624"
  by (simp add: mean_of_def fl_vals)

lemma edge_title_variance: "variance_of [5, 3, 1, 1, 1] = 5764607523034235 / 2251799813685248"
  by (simp add: variance_of_def edge_title_mean fl_0 fl_vals)

lemma edge_title_stdDev: "stdDev_of [5, 3, 1, 1, 1] = 3602879701896397 / 2251799813685248"
  by (simp add: stdDev_of_def edge_title_variance fl_0 edge_title_sqrt)

lemma edge_title_zScore_8: "zScore_of [5, 3, 1, 1, 1] 8 = 8162774324609023 / 2251799813685248"
  by (simp add: zScore_of_def edge_title_stdDev edge_title_mean fl_vals)

lemma edge_sev_sqrt: "fl (sqrt (2001599834386887 / 4503599627370496)) = 6004799503160661 / 9007199254740992"
proof -
  have "fl (sqrt (2001599834386887 / 4503599627370496)) = of_int 6004799503160661 * pow2 (-1 - 52)"
    by (rule fl_sqrt_eval) (simp_all add: pow2_def power2_eq_square)
  then show ?thesis by (simp add: pow2_def)
qed

lemma edge_sev_mean: "mean_of [3, 3, 3, 3, 3, 3, 3, 2, 1] = 6004799503160661 / 2251799813685248"
  by (simp add: mean_of_def fl_vals)

lemma edge_sev_variance: "variance_of [3, 3, 3, 3, 3, 3, 3, 2, 1] = 2001599834386887 / 4503599627370496"
  by (simp add: variance_of_def edge_sev_mean fl_0 fl_vals)

lemma edge_sev_stdDev: "stdDev_of [3, 3, 3, 3, 3, 3, 3, 2, 1] = 6004799503160661 / 9007199254740992"
  by (simp add: stdDev_of_def edge_sev_variance fl_0 edge_sev_sqrt)

lemma edge_sev_zScore_6: "zScore_of [3, 3, 3, 3, 3, 3, 3, 2, 1] 6 = 5629499534213121 / 1125899906842624"
  by (simp add: zScore_of_def edge_sev_stdDev edge_sev_mean fl_vals)

section \<open>Evaluating the example stores\<close>

lemma burst_baseline:
  "baselineQuery 270000 (logs burst_store) =
     [(240000, 3), (180000, 3), (120000, 3), (60000, 3), (0, 3)]"
  by (simp add: baselineQuery_def baseline_rows_def burst_store_def errorAt_def time_bucket_def)

lemma burst_current: "current_count 270000 burst_store = 6"
  by (simp add: current_count_def oneMinuteAgo_def uncorrelated_since_def burst_store_def
      errorAt_def)

lemma burst_values: "baseline_values 270000 burst_store = [3, 3, 3, 3, 3]"
  by (simp add: baseline_values_def burst_baseline)

lemma quiet_baseline:
  "baselineQuery 270000 (logs quiet_store) =
     [(240000, 1), (180000, 1), (120000, 1), (60000, 1), (0, 1)]"
  by (simp add: baselineQuery_def baseline_rows_def quiet_store_def errorAt_def time_bucket_def)

lemma quiet_current: "current_count 270000 quiet_store = 1"
  by (simp add: current_count_def oneMinuteAgo_def uncorrelated_since_def quiet_store_def
      errorAt_def)

lemma edge_baseline:
  "baselineQuery 270000 (logs edge_store) =
     [(240000, 5), (180000, 5), (120000, 5), (60000, 5), (0, 3)]"
  by (simp add: baselineQuery_def baseline_rows_def edge_store_def errorAt_def time_bucket_def)

lemma edge_current: "current_count 270000 edge_store = 7"
  by (simp add: current_count_def oneMinuteAgo_def uncorrelated_since_def edge_store_def
      errorAt_def)

lemma edge_values: "baseline_values 270000 edge_store = [5, 5, 5, 5, 3]"
  by (simp add: baseline_values_def edge_baseline)

lemma edge_title_baseline:
  "baselineQuery 270000 (logs edge_title_store) =
     [(240000, 5), (180000, 3), (120000, 1), (60000, 1), (0, 1)]"
  by (simp add: baselineQuery_def baseline_rows_def edge_title_store_def errorAt_def
      time_bucket_def)

lemma edge_title_current: "current_count 270000 edge_title_store = 8"
  by (simp add: current_count_def oneMinuteAgo_def uncorrelated_since_def edge_title_store_def
      errorAt_def)

lemma edge_title_values: "baseline_values 270000 edge_title_store = [5, 3, 1, 1, 1]"
  by (simp add: baseline_values_def edge_title_baseline)

section \<open>The scoring step\<close>

lemma anomaly_iff: "anomaly z c \<longleftrightarrow> 3 < z \<and> 5 < c"
  by (auto simp: anomaly_def Z_SCORE_THRESHOLD_def MIN_ERROR_COUNT_def)

text \<open>
  A tick whose two reads are served and whose baseline has five buckets or more
  reaches the scoring step; what it does from there depends on the score alone.
\<close>

lemma runDetection_scored:
  assumes "BaselineQuery \<notin> fails" and "CountCurrent \<notin> fails"
    and "5 \<le> length (baselineQuery dbNow (logs s))"
  shows "runDetection fails dbNow dateNow s =
     (if anomaly (zScore_of (baseline_values dbNow s) (current_count dateNow s))
           (current_count dateNow s)
      then (case IncidentsService_create (CreateIncident \<in> fails)
                   \<lparr>title = title_of (zScore_of (baseline_values dbNow s)
                                (current_count dateNow s)) (current_count dateNow s),
                    severity = severity_of (zScore_of (baseline_values dbNow s)
                                (current_count dateNow s)),
                    status = OPEN\<rparr> s of
              Inl e \<Rightarrow> (Inl e, s)
            | Inr (incident, s1) \<Rightarrow>
                (case log_updateMany (CorrelateLogs \<in> fails) (oneMinuteAgo dateNow)
                        (inc_id incident) s1 of
                   Inl e \<Rightarrow> (Inl e, s1)
                 | Inr s2 \<Rightarrow> (Inr (), s2)))
      else (Inr (), s))"
  using assms
  by (simp add: runDetection_def queryRaw_baseline_def log_count_def baseline_values_def
      current_count_def Let_def MIN_BASELINE_BUCKETS_def)

lemma runDetection_no_anomaly:
  assumes "BaselineQuery \<notin> fails" and "CountCurrent \<notin> fails"
    and "5 \<le> length (baselineQuery dbNow (logs s))"
    and "\<not> anomaly (zScore_of (baseline_values dbNow s) (current_count dateNow s))
              (current_count dateNow s)"
  shows "runDetection fails dbNow dateNow s = (Inr (), s)"
  using assms by (simp add: runDetection_scored)

lemma runDetection_anomaly_incidents:
  assumes "BaselineQuery \<notin> fails" and "CountCurrent \<notin> fails" and "CreateIncident \<notin> fails"
    and "5 \<le> length (baselineQuery dbNow (logs s))"
    and "anomaly (zScore_of (baseline_values dbNow s) (current_count dateNow s))
           (current_count dateNow s)"
  shows "incidents (snd (runDetection fails dbNow dateNow s)) =
     incidents s @
       [\<lparr>title = title_of (zScore_of (baseline_values dbNow s) (current_count dateNow s))
                   (current_count dateNow s),
         severity = severity_of (zScore_of (baseline_values dbNow s) (current_count dateNow s)),
         status = OPEN, inc_id = fresh_id (map inc_id (incidents s))\<rparr>]"
  using assms
  by (simp add: runDetection_scored IncidentsService_create_def incident_create_def
      log_updateMany_def Let_def)

text \<open>
  C1. Dual-threshold decision. For a tick that reaches the scoring step (both reads
  served, at least five buckets): when the store serves the insert, an incident is
  appended if and only if the score exceeds 3 and the current count exceeds 5; when
  either condition fails the tick returns with the store untouched; a current count
  of 1 creates nothing, and no score whatever makes a count of 1 an anomaly. The
  score is the one the doubles of the source give.
\<close>

theorem dual_threshold_decision:
  assumes "BaselineQuery \<notin> fails" and "CountCurrent \<notin> fails"
    and "5 \<le> length (baselineQuery dbNow (logs s))"
  shows "(CreateIncident \<notin> fails \<longrightarrow>
            ((\<exists>inc. incidents (snd (runDetection fails dbNow dateNow s)) = incidents s @ [inc])
              \<longleftrightarrow> 3 < zScore_of (baseline_values dbNow s) (current_count dateNow s)
                    \<and> 5 < current_count dateNow s))
       \<and> (\<not> (3 < zScore_of (baseline_values dbNow s) (current_count dateNow s)
                \<and> 5 < current_count dateNow s) \<longrightarrow>
            runDetection fails dbNow dateNow s = (Inr (), s))
       \<and> (current_count dateNow s = 1 \<longrightarrow> runDetection fails dbNow dateNow s = (Inr (), s))
       \<and> \<not> anomaly z 1"
proof (intro conjI impI)
  assume c: "CreateIncident \<notin> fails"
  show "(\<exists>inc. incidents (snd (runDetection fails dbNow dateNow s)) = incidents s @ [inc])
      \<longleftrightarrow> 3 < zScore_of (baseline_values dbNow s) (current_count dateNow s)
            \<and> 5 < current_count dateNow s"
  proof (cases "anomaly (zScore_of (baseline_values dbNow s) (current_count dateNow s))
                  (current_count dateNow s)")
    case True
    then show ?thesis
      using runDetection_anomaly_incidents [OF assms(1,2) c assms(3) True]
      by (simp add: anomaly_iff)
  next
    case False
    then show ?thesis
      using runDetection_no_anomaly [OF assms False] by (simp add: anomaly_iff)
  qed
next
  assume "\<not> (3 < zScore_of (baseline_values dbNow s) (current_count dateNow s)
                \<and> 5 < current_count dateNow s)"
  then show "runDetection fails dbNow dateNow s = (Inr (), s)"
    using runDetection_no_anomaly [OF assms] by (simp add: anomaly_iff)
next
  assume "current_count dateNow s = 1"
  then show "runDetection fails dbNow dateNow s = (Inr (), s)"
    using runDetection_no_anomaly [OF assms] by (simp add: anomaly_iff)
next
  show "\<not> anomaly z 1" by (simp add: anomaly_iff)
qed

theorem dual_threshold_decision_witness:
  "(\<exists>inc. incidents (snd (runDetection {} 270000 270000 burst_store))
            = incidents burst_store @ [inc])
   \<and> runDetection {} 270000 270000 quiet_store = (Inr (), quiet_store)
   \<and> (\<exists>inc. incidents (snd (runDetection {} 270000 270000 edge_store))
            = incidents edge_store @ [inc])"
  using dual_threshold_decision [of "{}" 270000 burst_store 270000]
    dual_threshold_decision [of "{}" 270000 quiet_store 270000]
    dual_threshold_decision [of "{}" 270000 edge_store 270000]
  by (simp add: burst_baseline burst_current burst_values threes_zScore_6 quiet_baseline
      quiet_current edge_baseline edge_current edge_values edge_zScore_7)

section \<open>Idempotence of detection\<close>

lemma correlated_filter:
  assumes "c \<le> c'"
  shows "filter (uncorrelated_since c')
           (map (\<lambda>l. if uncorrelated_since c l then l\<lparr>incident_id := Some i\<rparr> else l) ls) = []"
  using assms by (induction ls) (auto simp: uncorrelated_since_def)

lemma runDetection_changed:
  assumes "runDetection fails dbNow dateNow s = (Inr (), s1)" and "incidents s1 \<noteq> incidents s"
  shows "\<exists>i. logs s1 = map (\<lambda>l. if uncorrelated_since (oneMinuteAgo dateNow) l
                                   then l\<lparr>incident_id := Some i\<rparr> else l) (logs s)"
  using assms
  by (auto simp: runDetection_def queryRaw_baseline_def log_count_def IncidentsService_create_def
      incident_create_def log_updateMany_def Let_def split: sum.splits prod.splits if_splits)

lemma runDetection_quiet:
  assumes "current_count dateNow s = 0"
  shows "snd (runDetection fails dbNow dateNow s) = s"
  using assms
  by (auto simp: runDetection_def queryRaw_baseline_def log_count_def current_count_def
      anomaly_iff Let_def split: sum.splits prod.splits if_splits)

lemma burst_no_incidents: "incidents burst_store = []"
  by (simp add: burst_store_def)

lemma burst_run:
  "runDetection {} 270000 270000 burst_store =
     (Inr (), snd (runDetection {} 270000 270000 burst_store))"
  by (simp add: runDetection_scored burst_baseline anomaly_iff burst_current burst_values
      threes_zScore_6 IncidentsService_create_def incident_create_def log_updateMany_def Let_def)

lemma burst_incidents:
  "incidents (snd (runDetection {} 270000 270000 burst_store)) =
     [\<lparr>title = title_of 999 6, severity = severity_of 999, status = OPEN, inc_id = 1\<rparr>]"
  using runDetection_anomaly_incidents [of "{}" 270000 burst_store 270000]
  by (simp add: burst_baseline anomaly_iff burst_current burst_values threes_zScore_6
      burst_no_incidents fresh_id_def)

text \<open>
  C2. Idempotence of detection. Let a tick declare an anomaly and apply the
  correlating update: it returns normally with a new incident, leaving the store
  \<open>s1\<close>. Then in \<open>s1\<close> the count of uncorrelated ERROR records of the window is 0,
  at the same instant and at any later one, and a re-run over \<open>s1\<close> (whatever its
  clocks from then on, whatever calls are rejected) leaves the store as it is: no
  second incident.
\<close>

theorem detection_idempotent:
  assumes "runDetection fails dbNow dateNow s = (Inr (), s1)"
    and "incidents s1 \<noteq> incidents s"
    and "dateNow \<le> dateNow'"
  shows "current_count dateNow' s1 = 0
       \<and> snd (runDetection fails' dbNow' dateNow' s1) = s1
       \<and> incidents (snd (runDetection fails' dbNow' dateNow' s1)) = incidents s1"
proof -
  obtain i where "logs s1 = map (\<lambda>l. if uncorrelated_since (oneMinuteAgo dateNow) l
                                   then l\<lparr>incident_id := Some i\<rparr> else l) (logs s)"
    using runDetection_changed [OF assms(1,2)] by blast
  moreover have "oneMinuteAgo dateNow \<le> oneMinuteAgo dateNow'"
    using assms(3) by (simp add: oneMinuteAgo_def)
  ultimately have c: "current_count dateNow' s1 = 0"
    by (simp add: current_count_def correlated_filter)
  then show ?thesis by (simp add: runDetection_quiet)
qed

theorem detection_idempotent_witness:
  "snd (runDetection {} 270000 270000 (snd (runDetection {} 270000 270000 burst_store)))
     = snd (runDetection {} 270000 270000 burst_store)
   \<and> current_count 275000 (snd (runDetection {} 270000 270000 burst_store)) = 0"
proof -
  have n: "incidents (snd (runDetection {} 270000 270000 burst_store)) \<noteq> incidents burst_store"
    by (simp add: burst_incidents burst_no_incidents)
  show ?thesis
    using detection_idempotent [OF burst_run n, of 270000 "{}" 270000]
      detection_idempotent [OF burst_run n, of 275000 "{}" 275000]
    by simp
qed

section \<open>The ingestion path\<close>

text \<open>
  C3. Ingestion submit contract. \<open>processLog\<close> keeps no in-memory sequence: it
  awaits the insert of the one record, so when the store rejects the call the error
  reaches the producer (for every record and store), and when the store serves it
  the row is in the table by the time the call returns.
\<close>

theorem processLog_awaits_and_rethrows:
  "processLog True logDto s = (Inl StoreUnavailable, s)
   \<and> processLog True example_dto empty_store = (Inl StoreUnavailable, empty_store)
   \<and> logs (snd (processLog False example_dto empty_store)) =
       [\<lparr>log_id = 1, service_id = ''payment-service'', level = ERROR,
         message = ''Payment gateway timeout'', timestamp = 1000,
         metadata = [(''transaction_id'', ''tx_12345'')], incident_id = None\<rparr>]"
  by (simp add: processLog_def log_create_def example_dto_def empty_store_def fresh_id_def
      Let_def)

section \<open>The lease\<close>


lemma find_snoc:
  "find P (xs @ [x]) =
     (case find P xs of None \<Rightarrow> (if P x then Some x else None) | Some y \<Rightarrow> Some y)"
  by (induction xs) auto




lemma delete_caught_frame:
  "logs (delete_caught down s) = logs s \<and> incidents (delete_caught down s) = incidents s"
  by (simp add: delete_caught_def cronLock_delete_def)

lemma cronLock_create_frame:
  "cronLock_create down row s = Inr s' \<Longrightarrow> logs s' = logs s \<and> incidents s' = incidents s"
  by (auto simp: cronLock_create_def split: if_splits)

lemma created_row_found:
  assumes "cronLock_create down row s0 = Inr s"
  shows "find (\<lambda>l. lock_id l = lock_id row) (cronLocks s) = Some row"
  using assms by (auto simp: cronLock_create_def find_snoc split: if_splits)

lemma handleCron_locked:
  assumes "find (\<lambda>l. lock_id l = lockId) (cronLocks s) = Some l" and "now < expiry l"
  shows "handleCron fails now dbNow dateNow s =
           (if FindLock \<in> fails then Inl StoreUnavailable else Inr SkippedLocked, s)"
  using assms by (simp add: handleCron_def cronLock_findUnique_def)

lemma handleCron_not_locked:
  assumes "FindLock \<notin> fails" and "find (\<lambda>l. lock_id l = lockId) (cronLocks s) = Some l"
    and "fst (handleCron fails now dbNow dateNow s) \<noteq> Inr SkippedLocked"
  shows "expiry l \<le> now"
  using assms by (auto simp: handleCron_def create_and_detect_def cronLock_findUnique_def split: if_splits)

lemma stale_find:
  "find (\<lambda>l. lock_id l = lockId) (cronLocks stale_store)
     = Some \<lparr>lock_id = lockId, lockedAt = 0, expiry = 9000\<rparr>"
  by (simp add: stale_store_def)

lemma stale_created:
  "cronLock_create False \<lparr>lock_id = lockId, lockedAt = 0, expiry = 0 + 9000\<rparr> empty_store
     = Inr stale_store"
  by (simp add: cronLock_create_def empty_store_def stale_store_def)

lemma no_logs_run:
  "logs s = [] \<Longrightarrow>
     runDetection fails dbNow dateNow s =
       (if BaselineQuery \<in> fails then (Inl StoreUnavailable, s) else (Inr (), s))"
  by (simp add: runDetection_def queryRaw_baseline_def baselineQuery_def baseline_rows_def
      MIN_BASELINE_BUCKETS_def)

lemma stale_reclaim:
  "9000 \<le> now \<Longrightarrow> handleCron {} now dbNow dateNow stale_store = (Inr Detected, empty_store)"
  by (simp add: handleCron_def create_and_detect_def cronLock_findUnique_def stale_store_def
      delete_caught_def
      cronLock_delete_def cronLock_create_def no_logs_run empty_store_def)


text \<open>
  The points of \<open>step\<close> are those of \<open>handleCron\<close>: an instance that takes its five
  steps with no call of another in between ends as \<open>handleCron\<close> does.
\<close>

lemma handleCron_as_steps:
  "interleave ea eb [First, First, First, First, First] (AtFind, pb, s)
   = (Exited (fst (handleCron (fails_of ea) (now_of ea) (dbNow_of ea) (dateNow_of ea) s)), pb,
      snd (handleCron (fails_of ea) (now_of ea) (dbNow_of ea) (dateNow_of ea) s))"
  by (auto simp: handleCron_def create_and_detect_def split: sum.splits option.splits prod.splits)

text \<open>With no row at all, two instances that race on the create have one winner.\<close>

lemma create_race_from_empty:
  "interleave (instance_at 20000) (instance_at 20001)
     [First, Second, First, Second] (AtFind, AtFind, empty_store)
   = (AtDetect, Exited (Inr SkippedRace),
      \<lparr>logs = [], incidents = [],
       cronLocks = [\<lparr>lock_id = lockId, lockedAt = 20000, expiry = 29000\<rparr>]\<rparr>)"
  by (simp add: instance_at_def empty_store_def cronLock_findUnique_def cronLock_create_def)

text \<open>
  C4. Lease mutual exclusion under race. The store holds an expired lease and no
  live one. Both instances read the expired row; the first deletes it and creates
  its own; the second then deletes by key, which removes the row the first has just
  created, and its create succeeds as well. Both instances are at \<open>AtDetect\<close>, inside
  the protected section, at the same time.
\<close>

theorem stale_reclaim_race:
  "interleave (instance_at 20000) (instance_at 20001)
     [First, Second, First, First, Second, Second] (AtFind, AtFind, stale_store)
   = (AtDetect, AtDetect,
      \<lparr>logs = [], incidents = [],
       cronLocks = [\<lparr>lock_id = lockId, lockedAt = 20001, expiry = 29001\<rparr>]\<rparr>)"
  by (simp add: instance_at_def stale_store_def cronLock_findUnique_def cronLock_create_def
      cronLock_delete_def delete_caught_def)

text \<open>
  A tick that runs with no call of another instance in between. When a lease row
  for the detection lock exists whose expiry is later than \<open>now\<close>, it ends with the
  store exactly as it was, at its first \<open>return\<close> (or, when the lookup itself is
  rejected, with that error); it gets further only when the expiry is not later
  than \<open>now\<close>; a lease created at \<open>t0\<close> blocks it before \<open>t0 + 9000\<close>.
\<close>

lemma handleCron_blocked_alone:
  assumes "find (\<lambda>l. lock_id l = lockId) (cronLocks s) = Some l"
  shows "(now < expiry l \<longrightarrow>
            handleCron fails now dbNow dateNow s =
              (if FindLock \<in> fails then Inl StoreUnavailable else Inr SkippedLocked, s))
       \<and> (FindLock \<notin> fails \<and> fst (handleCron fails now dbNow dateNow s) \<noteq> Inr SkippedLocked
            \<longrightarrow> expiry l \<le> now)
       \<and> (cronLock_create down \<lparr>lock_id = lockId, lockedAt = t0, expiry = t0 + 9000\<rparr> s0 = Inr s
            \<and> now < t0 + 9000 \<longrightarrow>
          handleCron fails now dbNow dateNow s =
            (if FindLock \<in> fails then Inl StoreUnavailable else Inr SkippedLocked, s))"
proof (intro conjI impI)
  show "now < expiry l \<Longrightarrow>
      handleCron fails now dbNow dateNow s =
        (if FindLock \<in> fails then Inl StoreUnavailable else Inr SkippedLocked, s)"
    using handleCron_locked [OF assms] by blast
  show "FindLock \<notin> fails \<and> fst (handleCron fails now dbNow dateNow s) \<noteq> Inr SkippedLocked
      \<Longrightarrow> expiry l \<le> now"
    using handleCron_not_locked [OF _ assms] by blast
next
  assume a: "cronLock_create down \<lparr>lock_id = lockId, lockedAt = t0, expiry = t0 + 9000\<rparr> s0
               = Inr s \<and> now < t0 + 9000"
  then have "find (\<lambda>l. lock_id l = lockId) (cronLocks s)
      = Some \<lparr>lock_id = lockId, lockedAt = t0, expiry = t0 + 9000\<rparr>"
    using created_row_found [of down "\<lparr>lock_id = lockId, lockedAt = t0, expiry = t0 + 9000\<rparr>" s0 s]
    by simp
  with a show "handleCron fails now dbNow dateNow s =
      (if FindLock \<in> fails then Inl StoreUnavailable else Inr SkippedLocked, s)"
    using handleCron_locked [of s _ now] by simp
qed

lemma handleCron_blocked_alone_stale:
  "handleCron {} 5000 5000 5000 stale_store = (Inr SkippedLocked, stale_store)
   \<and> handleCron {} 8999 8999 8999 stale_store = (Inr SkippedLocked, stale_store)
   \<and> handleCron {} 9000 9000 9000 stale_store = (Inr Detected, empty_store)"
  using handleCron_blocked_alone [OF stale_find, of 5000 "{}" 5000 5000 False 0 empty_store]
    handleCron_blocked_alone [OF stale_find, of 8999 "{}" 8999 8999 False 0 empty_store]
    handleCron_blocked_alone [OF stale_find, of 9000 "{}" 9000 9000 False 0 empty_store]
  by (simp add: stale_reclaim stale_created)

text \<open>
  C5. Lease blocks until expiry. Between the calls of one tick the store serves
  those of another, and there the lease does not block. Both instances read the
  expired row. After four calls the first instance holds a lease of its own, with
  expiry 29000, and is inside the protected section; the second, whose \<open>now\<close> is
  20001, has yet to make its delete. Its next call deletes that live row, and the
  one after creates a row of its own: the lease of the first instance is deleted
  and replaced, and the lock acquired again, 8999 milliseconds before its expiry.
\<close>

theorem live_lease_deleted:
  "interleave (instance_at 20000) (instance_at 20001)
     [First, Second, First, First] (AtFind, AtFind, stale_store)
   = (AtDetect, AtDeleteStale,
      \<lparr>logs = [], incidents = [],
       cronLocks = [\<lparr>lock_id = lockId, lockedAt = 20000, expiry = 29000\<rparr>]\<rparr>)
   \<and> now_of (instance_at 20001) < 29000
   \<and> interleave (instance_at 20000) (instance_at 20001)
       [First, Second, First, First, Second] (AtFind, AtFind, stale_store)
     = (AtDetect, AtCreate, \<lparr>logs = [], incidents = [], cronLocks = []\<rparr>)
   \<and> find (\<lambda>l. lock_id l = lockId)
         (cronLocks (snd (snd (interleave (instance_at 20000) (instance_at 20001)
            [First, Second, First, First, Second, Second] (AtFind, AtFind, stale_store)))))
     = Some \<lparr>lock_id = lockId, lockedAt = 20001, expiry = 29001\<rparr>"
  by (simp add: instance_at_def stale_store_def cronLock_findUnique_def cronLock_create_def
      cronLock_delete_def delete_caught_def)




section \<open>The score\<close>

lemma mean_0: "mean_of [0, 0, 0, 0, 0] = 0"
  by (simp add: mean_of_def fl_0)

lemma stdDev_0: "stdDev_of [0, 0, 0, 0, 0] = 0"
  by (simp add: stdDev_of_def variance_of_def mean_of_def fl_0)

lemma title_999_6:
  "title_of 999 6 = ''Anomaly Detected: Error Spike (Z-Score: 999.00, Count: 6)''"
  by (simp add: title_of_def toFixed2_def digits_of.simps)

text \<open>
  C7. Cold-start sentinel. When the deviation of the buckets (at least one) is 0
  the score is 999 if the current count exceeds the mean and 0 otherwise. For the buckets
  \<open>[0,0,0,0,0]\<close> and the count 6 the deviation is 0, the score is 999, the alert
  condition holds and the severity is CRITICAL. And a tick that reaches the scoring
  step with deviation 0, a count above the mean and above 5, and a served insert,
  appends an incident of severity CRITICAL whose title carries the score 999.
\<close>

theorem cold_start_sentinel:
  "(values \<noteq> [] \<and> stdDev_of values = 0 \<longrightarrow>
      zScore_of values c = (if mean_of values < real c then 999 else 0))
   \<and> stdDev_of [0, 0, 0, 0, 0] = 0
   \<and> zScore_of [0, 0, 0, 0, 0] 6 = 999
   \<and> anomaly (zScore_of [0, 0, 0, 0, 0] 6) 6
   \<and> severity_of (zScore_of [0, 0, 0, 0, 0] 6) = CRITICAL
   \<and> (BaselineQuery \<notin> fails \<and> CountCurrent \<notin> fails \<and> CreateIncident \<notin> fails
        \<and> 5 \<le> length (baselineQuery dbNow (logs s))
        \<and> stdDev_of (baseline_values dbNow s) = 0
        \<and> mean_of (baseline_values dbNow s) < real (current_count dateNow s)
        \<and> 5 < current_count dateNow s \<longrightarrow>
      (\<exists>inc. incidents (snd (runDetection fails dbNow dateNow s)) = incidents s @ [inc]
            \<and> severity inc = CRITICAL
            \<and> title inc = title_of 999 (current_count dateNow s)))"
proof (intro conjI impI)
  show "values \<noteq> [] \<and> stdDev_of values = 0 \<Longrightarrow>
      zScore_of values c = (if mean_of values < real c then 999 else 0)"
    by (simp add: zScore_of_def)
  show "stdDev_of [0, 0, 0, 0, 0] = 0" by (rule stdDev_0)
  show z: "zScore_of [0, 0, 0, 0, 0] 6 = 999"
    by (simp add: zScore_of_def stdDev_0 mean_0)
  show "anomaly (zScore_of [0, 0, 0, 0, 0] 6) 6"
    by (simp add: z anomaly_iff)
  show "severity_of (zScore_of [0, 0, 0, 0, 0] 6) = CRITICAL"
    by (simp add: z severity_of_def)
next
  assume a: "BaselineQuery \<notin> fails \<and> CountCurrent \<notin> fails \<and> CreateIncident \<notin> fails
        \<and> 5 \<le> length (baselineQuery dbNow (logs s))
        \<and> stdDev_of (baseline_values dbNow s) = 0
        \<and> mean_of (baseline_values dbNow s) < real (current_count dateNow s)
        \<and> 5 < current_count dateNow s"
  then have z: "zScore_of (baseline_values dbNow s) (current_count dateNow s) = 999"
    by (simp add: zScore_of_def)
  with a have "anomaly (zScore_of (baseline_values dbNow s) (current_count dateNow s))
      (current_count dateNow s)"
    by (simp add: anomaly_iff)
  with a show "\<exists>inc. incidents (snd (runDetection fails dbNow dateNow s)) = incidents s @ [inc]
            \<and> severity inc = CRITICAL
            \<and> title inc = title_of 999 (current_count dateNow s)"
    using runDetection_anomaly_incidents [of fails dbNow s dateNow]
    by (simp add: z severity_of_def)
qed

theorem cold_start_sentinel_witness:
  "zScore_of [3, 3, 3, 3, 3] 6 = 999
   \<and> zScore_of [3, 3, 3, 3, 3] 2 = 0
   \<and> (\<exists>inc. incidents (snd (runDetection {} 270000 270000 burst_store))
               = incidents burst_store @ [inc]
         \<and> severity inc = CRITICAL
         \<and> title inc = ''Anomaly Detected: Error Spike (Z-Score: 999.00, Count: 6)'')"
  using cold_start_sentinel [of "[3, 3, 3, 3, 3]" 6 "{}" 270000 burst_store 270000]
    cold_start_sentinel [of "[3, 3, 3, 3, 3]" 2 "{}" 270000 burst_store 270000]
  by (simp add: threes_stdDev threes_mean burst_baseline burst_current burst_values title_999_6)

subsection \<open>The buckets 2, 3, 2, 4, 3 and the count 10\<close>

lemma ex_mean_literal: "mean_of [2, 3, 2, 4, 3] = fl 2.8"
  by (simp add: ex_mean fl_vals)

lemma ex_sqrt_near:
  "\<bar>3370185362564637 / 4503599627370496 - sqrt (14 / 25)\<bar> < 1 / 10 ^ 15"
proof -
  have "3370185362564637 / 4503599627370496 - 1 / 10 ^ 15 < sqrt (14 / 25 :: real)"
    by (rule real_less_rsqrt) (simp add: power2_eq_square)
  moreover have "sqrt (14 / 25 :: real) < 3370185362564637 / 4503599627370496 + 1 / 10 ^ 15"
    by (rule real_less_lsqrt) (simp_all add: power2_eq_square)
  ultimately show ?thesis by (simp only: abs_less_iff) linarith
qed

lemma ex_toFixed: "toFixed2 (338523083293323 / 35184372088832) = ''9.62''"
  by (simp add: toFixed2_def digits_of.simps)

text \<open>
  C8, as the code has it. For the buckets \<open>[2,3,2,4,3]\<close> and the count 10 the score
  lies below 9.625: to two decimals it is 9.62, which is what the title of the
  incident shows, and not 9.63.
\<close>

theorem statistics_instance_counterexample:
  "zScore_of [2, 3, 2, 4, 3] 10 < 9625 / 1000
   \<and> toFixed2 (zScore_of [2, 3, 2, 4, 3] 10) = ''9.62''"
  by (simp add: ex_zScore_10 ex_toFixed)

text \<open>
  C8, amended. For the buckets \<open>[2,3,2,4,3]\<close> the mean is the double 2.8 and the
  population variance (the squared deviations divided by the number of buckets) is
  0.56 up to rounding, so the deviation is the square root of 0.56 up to rounding,
  between 0.748 and 0.749. With the count 10 the score is \<open>(10 - \<mu>) / \<sigma>\<close>,
  between 9.62 and 9.625, rendered \<open>9.62\<close>; it exceeds 5, the alert condition holds
  and the severity is CRITICAL.
\<close>

theorem statistics_instance:
  "mean_of [2, 3, 2, 4, 3] = fl 2.8
   \<and> \<bar>mean_of [2, 3, 2, 4, 3] - 2.8\<bar> < 1 / 10 ^ 15
   \<and> \<bar>variance_of [2, 3, 2, 4, 3] - 0.56\<bar> < 1 / 10 ^ 15
   \<and> \<bar>stdDev_of [2, 3, 2, 4, 3] - sqrt 0.56\<bar> < 1 / 10 ^ 15
   \<and> 0.748 < stdDev_of [2, 3, 2, 4, 3] \<and> stdDev_of [2, 3, 2, 4, 3] < 0.749
   \<and> zScore_of [2, 3, 2, 4, 3] 10
       = fl (fl (10 - mean_of [2, 3, 2, 4, 3]) / stdDev_of [2, 3, 2, 4, 3])
   \<and> 9.62 < zScore_of [2, 3, 2, 4, 3] 10 \<and> zScore_of [2, 3, 2, 4, 3] 10 < 9.625
   \<and> 5 < zScore_of [2, 3, 2, 4, 3] 10
   \<and> anomaly (zScore_of [2, 3, 2, 4, 3] 10) 10
   \<and> severity_of (zScore_of [2, 3, 2, 4, 3] 10) = CRITICAL
   \<and> title_of (zScore_of [2, 3, 2, 4, 3] 10) 10
       = ''Anomaly Detected: Error Spike (Z-Score: 9.62, Count: 10)''"
proof -
  have m: "mean_of [2, 3, 2, 4, 3] = fl 2.8" by (rule ex_mean_literal)
  have m': "\<bar>mean_of [2, 3, 2, 4, 3] - 2.8\<bar> < 1 / 10 ^ 15" by (simp add: ex_mean)
  have v: "\<bar>variance_of [2, 3, 2, 4, 3] - 0.56\<bar> < 1 / 10 ^ 15" by (simp add: ex_variance)
  have "(0.56::real) = 14 / 25" by simp
  then have d: "\<bar>stdDev_of [2, 3, 2, 4, 3] - sqrt 0.56\<bar> < 1 / 10 ^ 15"
    using ex_sqrt_near by (simp only: ex_stdDev)
  have b: "0.748 < stdDev_of [2, 3, 2, 4, 3] \<and> stdDev_of [2, 3, 2, 4, 3] < 0.749"
    by (simp add: ex_stdDev)
  have "stdDev_of [2, 3, 2, 4, 3] \<noteq> 0" by (simp add: ex_stdDev)
  then have z: "zScore_of [2, 3, 2, 4, 3] 10
       = fl (fl (10 - mean_of [2, 3, 2, 4, 3]) / stdDev_of [2, 3, 2, 4, 3])"
    by (simp add: zScore_of_def)
  have r: "9.62 < zScore_of [2, 3, 2, 4, 3] 10 \<and> zScore_of [2, 3, 2, 4, 3] 10 < 9.625"
    by (simp add: ex_zScore_10)
  then have f: "5 < zScore_of [2, 3, 2, 4, 3] 10" by simp
  have a: "anomaly (zScore_of [2, 3, 2, 4, 3] 10) 10"
    using f by (simp add: anomaly_iff)
  have c: "severity_of (zScore_of [2, 3, 2, 4, 3] 10) = CRITICAL"
    using f by (simp add: severity_of_def)
  have t: "title_of (zScore_of [2, 3, 2, 4, 3] 10) 10
       = ''Anomaly Detected: Error Spike (Z-Score: 9.62, Count: 10)''"
    by (simp add: title_of_def ex_zScore_10 ex_toFixed digits_of.simps)
  from m m' v d b z r f a c t show ?thesis by blast
qed

subsection \<open>Scores next to a threshold\<close>

text \<open>
  Three bucket lists whose exact scores would be 3, 3.625 and 5. The rounded
  operations put the first just above 3 (an alert), the second just below 3.625
  (rendered \<open>3.62\<close>), the third just above 5 (CRITICAL).
\<close>

lemma edge_alert:
  "3 < zScore_of [5, 5, 5, 5, 3] 7 \<and> anomaly (zScore_of [5, 5, 5, 5, 3] 7) 7"
  by (simp add: edge_zScore_7 anomaly_iff)

lemma edge_title_rendered:
  "title_of (zScore_of [5, 3, 1, 1, 1] 8) 8
     = ''Anomaly Detected: Error Spike (Z-Score: 3.62, Count: 8)''
   \<and> severity_of (zScore_of [5, 3, 1, 1, 1] 8) = HIGH"
  by (simp add: edge_title_zScore_8 title_of_def toFixed2_def digits_of.simps severity_of_def)

lemma edge_severity:
  "severity_of (zScore_of [3, 3, 3, 3, 3, 3, 3, 2, 1] 6) = CRITICAL"
  by (simp add: edge_sev_zScore_6 severity_of_def)

section \<open>The warm-up guard\<close>

lemma runDetection_warmup:
  assumes "BaselineQuery \<notin> fails" and "length (baselineQuery dbNow (logs s)) < 5"
  shows "runDetection fails dbNow dateNow s = (Inr (), s)"
  using assms
  by (simp add: runDetection_def queryRaw_baseline_def MIN_BASELINE_BUCKETS_def)

lemma fresh_burst_baseline:
  "baselineQuery 270000 (logs fresh_burst_store) = [(240000, 6)]"
  by (simp add: baselineQuery_def baseline_rows_def fresh_burst_store_def errorAt_def
      time_bucket_def)

lemma fresh_burst_current: "current_count 270000 fresh_burst_store = 6"
  by (simp add: current_count_def oneMinuteAgo_def uncorrelated_since_def
      fresh_burst_store_def errorAt_def)

text \<open>
  C9. Warm-up guard. When the baseline query is served and returns fewer than five
  buckets, \<open>runDetection\<close> returns normally with the store exactly as it was: no
  incident is created and no record's \<open>incident_id\<close> is set. The whole tick,
  \<open>handleCron\<close>, then leaves the \<open>Log\<close> and \<open>Incident\<close> tables as they were (the lease
  row is all it writes).
\<close>

theorem warmup_guard:
  assumes "BaselineQuery \<notin> fails" and "length (baselineQuery dbNow (logs s)) < 5"
  shows "runDetection fails dbNow dateNow s = (Inr (), s)
       \<and> logs (snd (handleCron fails now dbNow dateNow s)) = logs s
       \<and> incidents (snd (handleCron fails now dbNow dateNow s)) = incidents s"
proof -
  have w: "\<And>s'. logs s' = logs s \<Longrightarrow> runDetection fails dbNow dateNow s' = (Inr (), s')"
    using assms by (simp add: runDetection_warmup)
  show ?thesis
    using assms
    by (auto simp: runDetection_warmup handleCron_def create_and_detect_def w delete_caught_frame cronLock_findUnique_def
        dest!: cronLock_create_frame split: sum.splits option.splits prod.splits)
qed

theorem warmup_guard_witness:
  "runDetection {} 270000 270000 fresh_burst_store = (Inr (), fresh_burst_store)
   \<and> current_count 270000 fresh_burst_store = 6
   \<and> logs (snd (handleCron {} 270000 270000 270000 fresh_burst_store))
       = logs fresh_burst_store
   \<and> incidents (snd (handleCron {} 270000 270000 270000 fresh_burst_store)) = []"
  using warmup_guard [of "{}" 270000 fresh_burst_store 270000 270000]
  by (simp add: fresh_burst_baseline fresh_burst_current) (simp add: fresh_burst_store_def)

section \<open>The incidents of the engine\<close>

text \<open>
  C10. Whatever a run of \<open>runDetection\<close> does, it leaves the incidents as they were
  or appends exactly one; the one it appends has status OPEN, severity HIGH or
  CRITICAL, and a title that spells out the score of this tick (the double the
  source computes, rendered by \<open>toFixed(2)\<close>) and its current count.
\<close>

theorem created_incident_shape:
  assumes "runDetection fails dbNow dateNow s = (r, s')"
  shows "incidents s' = incidents s
       \<or> (\<exists>inc. incidents s' = incidents s @ [inc]
             \<and> status inc = OPEN
             \<and> (severity inc = HIGH \<or> severity inc = CRITICAL)
             \<and> title inc =
                 ''Anomaly Detected: Error Spike (Z-Score: ''
                   @ toFixed2 (zScore_of (baseline_values dbNow s) (current_count dateNow s))
                   @ '', Count: '' @ digits_of (current_count dateNow s) @ '')'')"
  using assms
  by (auto simp: runDetection_def queryRaw_baseline_def log_count_def IncidentsService_create_def
      incident_create_def log_updateMany_def Let_def severity_of_def title_of_def
      baseline_values_def current_count_def
      split: sum.splits prod.splits if_splits)

lemma edge_title_no_incidents: "incidents edge_title_store = []"
  by (simp add: edge_title_store_def)

lemma edge_title_run:
  "runDetection {} 270000 270000 edge_title_store =
     (Inr (), snd (runDetection {} 270000 270000 edge_title_store))"
  by (simp add: runDetection_scored edge_title_baseline anomaly_iff edge_title_current
      edge_title_values edge_title_zScore_8 IncidentsService_create_def incident_create_def
      log_updateMany_def Let_def)

lemma edge_title_incidents:
  "incidents (snd (runDetection {} 270000 270000 edge_title_store)) =
     [\<lparr>title = ''Anomaly Detected: Error Spike (Z-Score: 3.62, Count: 8)'',
       severity = HIGH, status = OPEN, inc_id = 1\<rparr>]"
  using runDetection_anomaly_incidents [of "{}" 270000 edge_title_store 270000]
    edge_title_rendered
  by (simp add: edge_title_baseline anomaly_iff edge_title_current edge_title_values
      edge_title_zScore_8 edge_title_no_incidents fresh_id_def)

theorem created_incident_shape_witness:
  "(\<exists>inc. incidents (snd (runDetection {} 270000 270000 burst_store)) = [inc]
       \<and> status inc = OPEN
       \<and> severity inc = CRITICAL
       \<and> title inc = ''Anomaly Detected: Error Spike (Z-Score: 999.00, Count: 6)'')
   \<and> (\<exists>inc. incidents (snd (runDetection {} 270000 270000 edge_title_store)) = [inc]
       \<and> status inc = OPEN
       \<and> severity inc = HIGH
       \<and> title inc = ''Anomaly Detected: Error Spike (Z-Score: 3.62, Count: 8)'')"
  using created_incident_shape [OF burst_run] created_incident_shape [OF edge_title_run]
  by (simp add: burst_incidents burst_no_incidents title_999_6 severity_of_def
      edge_title_incidents edge_title_no_incidents)

end
